theory Spec2Isabelle
  imports Complex_Main "HOL-Library.Word"
begin

unbundle bit_operations_syntax

section \<open>Numbers and external collaborators\<close>

text \<open>
  The program is \<^verbatim>\<open>src/main.ts\<close>. JavaScript numbers are modelled as \<^typ>\<open>real\<close>:
  sums, products and \<^verbatim>\<open>Math.min\<close> are the exact ones, rounding is left out.
  \<^verbatim>\<open>Math.random()\<close> is an input: a handler receives the sequence \<open>rnd\<close> of the
  values its calls return, \<open>rnd k\<close> for the call number \<open>k\<close> (counted from 0 in
  evaluation order).

  The modules \<^verbatim>\<open>./math\<close> and \<^verbatim>\<open>./camera\<close> are imported by the program and are not
  part of it. Their operations are parameters: a record of the matrix functions over an
  arbitrary matrix type \<open>'m\<close>, and a record of the two camera methods over an arbitrary
  camera state \<open>'c\<close>.
\<close>

record 'm mat4 =
  translation :: "real \<Rightarrow> real \<Rightarrow> real \<Rightarrow> 'm"
  scaling :: "real \<Rightarrow> real \<Rightarrow> real \<Rightarrow> 'm"
  rotationX :: "real \<Rightarrow> 'm"
  rotationY :: "real \<Rightarrow> 'm"
  rotationZ :: "real \<Rightarrow> 'm"
  multiply :: "'m \<Rightarrow> 'm \<Rightarrow> 'm"
  perspective :: "real \<Rightarrow> real \<Rightarrow> real \<Rightarrow> real \<Rightarrow> 'm"

record ('m, 'c) Camera =
  update :: "string set \<Rightarrow> real \<Rightarrow> 'c \<Rightarrow> 'c"
  getViewMatrix :: "'c \<Rightarrow> 'm"

section \<open>The GPU device\<close>

text \<open>
  \<^verbatim>\<open>device.createBuffer\<close> and \<^verbatim>\<open>device.createBindGroup\<close> return a new object at
  every call. A buffer is named by its creation number; a bind group by its position in
  the list of the bind groups created so far, which keeps the uniform buffer and the
  texture view it was created with. A texture view is named by the slot of its texture
  (0 for \<^verbatim>\<open>texture\<close>, 1 for \<^verbatim>\<open>texture1\<close>, 2 for \<^verbatim>\<open>texture2\<close>); \<open>None\<close> is
  JavaScript's \<^verbatim>\<open>undefined\<close>.
\<close>

record GPUDevice =
  buffers :: nat
  bindGroups :: "(nat \<times> nat option) list"

definition createBuffer :: "GPUDevice \<Rightarrow> nat \<times> GPUDevice" where
  "createBuffer dev = (buffers dev, dev\<lparr>buffers := buffers dev + 1\<rparr>)"

definition createBindGroup :: "nat \<Rightarrow> nat option \<Rightarrow> GPUDevice \<Rightarrow> nat \<times> GPUDevice" where
  "createBindGroup buf view dev =
     (length (bindGroups dev), dev\<lparr>bindGroups := bindGroups dev @ [(buf, view)]\<rparr>)"

text \<open>The commands of a frame that concern one object: upload, binding, draw call.\<close>

datatype 'm gpu_cmd = WriteBuffer nat 'm | SetBindGroup nat | Draw nat

section \<open>Texture loading with the checkerboard fallback\<close>

record ImageBitmap =
  img_width :: nat
  img_height :: nat
  img_pixels :: "8 word list"

record GPUTexture =
  tex_width :: nat
  tex_height :: nat
  texels :: "8 word list"

text \<open>
  What the \<^verbatim>\<open>try\<close> block of \<^verbatim>\<open>loadTextureOrCheckerboard\<close> can meet: \<^verbatim>\<open>fetch\<close>
  rejects; or it answers with the flag \<^verbatim>\<open>res.ok\<close>, the status, and the outcome of
  \<^verbatim>\<open>res.blob()\<close> followed by \<^verbatim>\<open>createImageBitmap\<close> (\<open>None\<close> when either throws).
\<close>

datatype fetch_outcome = Rejected | Responded bool nat "ImageBitmap option"

datatype load_error = FetchFailed | HttpError nat | DecodeFailed

text \<open>The \<^verbatim>\<open>try\<close> block: an error is the value \<open>Inl\<close>.\<close>

fun tryLoad :: "fetch_outcome \<Rightarrow> load_error + GPUTexture" where
  "tryLoad Rejected = Inl FetchFailed"
| "tryLoad (Responded ok status decoded) =
     (if \<not> ok then Inl (HttpError status)
      else case decoded of
             None \<Rightarrow> Inl DecodeFailed
           | Some bitmap \<Rightarrow>
               Inr \<lparr>tex_width = img_width bitmap, tex_height = img_height bitmap,
                    texels = img_pixels bitmap\<rparr>)"

text \<open>
  The inner loop \<^verbatim>\<open>for (let x = 0; x < w; x++)\<close> of the \<^verbatim>\<open>catch\<close> block, from the
  current \<open>x\<close> on. The shifts and masks are JavaScript's 32-bit integer operations on the
  loop counters, which are small and non-negative; a write to a \<^verbatim>\<open>Uint8Array\<close> outside
  its length does nothing, as a list update does.
\<close>

function xLoop :: "nat \<Rightarrow> nat \<Rightarrow> nat \<Rightarrow> 8 word list \<Rightarrow> 8 word list" where
  "xLoop w y x data =
     (if x < w then
        (let i = (y * w + x) * 4;
             checker = (drop_bit 4 (int x) AND 1) XOR (drop_bit 4 (int y) AND 1);
             c = (if checker \<noteq> 0 then 230 else 35)
         in xLoop w y (x + 1) (data[i + 0 := c, i + 1 := c, i + 2 := c, i + 3 := 255]))
      else data)"
  by pat_completeness auto
termination
  by (relation "measure (\<lambda>(w, y, x, data). w - x)") auto

declare xLoop.simps [simp del]

text \<open>The outer loop \<^verbatim>\<open>for (let y = 0; y < h; y++)\<close>, from the current \<open>y\<close> on.\<close>

function yLoop :: "nat \<Rightarrow> nat \<Rightarrow> nat \<Rightarrow> 8 word list \<Rightarrow> 8 word list" where
  "yLoop w h y data =
     (if y < h then yLoop w h (y + 1) (xLoop w y 0 data) else data)"
  by pat_completeness auto
termination
  by (relation "measure (\<lambda>(w, h, y, data). h - y)") auto

declare yLoop.simps [simp del]

text \<open>
  The \<^verbatim>\<open>catch\<close> block: a zeroed \<^verbatim>\<open>Uint8Array\<close> of \<open>w * h * 4\<close> bytes is filled and
  written to a texture of \<open>w\<close> by \<open>h\<close> texels with \<open>w * 4\<close> bytes per row.
\<close>

definition checkerboard :: GPUTexture where
  "checkerboard =
     (let w = 128; h = 128;
          data = replicate (w * h * 4) 0
      in \<lparr>tex_width = w, tex_height = h, texels = yLoop w h 0 data\<rparr>)"

definition loadTextureOrCheckerboard :: "fetch_outcome \<Rightarrow> GPUTexture" where
  "loadTextureOrCheckerboard outcome =
     (case tryLoad outcome of
        Inr tex \<Rightarrow> tex
      | Inl err \<Rightarrow> checkerboard)"

text \<open>
  The texel at column \<open>x\<close> and row \<open>y\<close> of an \<^verbatim>\<open>rgba8unorm\<close> texture whose rows are
  \<open>tex_width * 4\<close> bytes long: red, green, blue, alpha.
\<close>

definition texel :: "GPUTexture \<Rightarrow> nat \<Rightarrow> nat \<Rightarrow> 8 word \<times> 8 word \<times> 8 word \<times> 8 word" where
  "texel tex x y =
     (let i = (y * tex_width tex + x) * 4
      in (texels tex ! i, texels tex ! (i + 1), texels tex ! (i + 2), texels tex ! (i + 3)))"

section \<open>Object state\<close>

text \<open>
  \<^verbatim>\<open>interface CubeState\<close>. The composition order is a string at run time, so the
  \<^verbatim>\<open>default\<close> branch of \<^verbatim>\<open>buildModelMatrix\<close> can be reached; the three optional
  fields are \<open>None\<close> when absent.
\<close>

record CubeState =
  tx :: real
  ty :: real
  tz :: real
  rx :: real
  ry :: real
  rz :: real
  s :: real
  order :: string
  uniformBuffer :: "nat option"
  bindGroup :: "nat option"
  textureView :: "nat option"
  rotSpeedX :: real
  rotSpeedY :: real
  rotSpeedZ :: real

text \<open>
  The module-level variables: \<^verbatim>\<open>keys\<close>, \<^verbatim>\<open>cubes\<close>, \<^verbatim>\<open>modelState\<close> (the primary
  object, drawn with the module-level \<^verbatim>\<open>uniformBuffer\<close> and \<^verbatim>\<open>bindGroup\<close>, here
  \<open>primaryUniformBuffer\<close> and \<open>primaryBindGroup\<close>), \<^verbatim>\<open>lastTime\<close>, \<^verbatim>\<open>camera\<close> and
  \<^verbatim>\<open>device\<close>.
\<close>

record 'c World =
  keys :: "string set"
  cubes :: "CubeState list"
  modelState :: CubeState
  lastTime :: real
  camera :: 'c
  device :: GPUDevice
  primaryUniformBuffer :: nat
  primaryBindGroup :: nat

definition vertexCount :: nat where
  "vertexCount = 180 div 5"

definition createCubeBindGroup :: "CubeState \<Rightarrow> GPUDevice \<Rightarrow> CubeState \<times> GPUDevice" where
  "createCubeBindGroup cube dev =
     (let (uniBuffer, dev1) = createBuffer dev;
          (bGroup, dev2) = createBindGroup uniBuffer (textureView cube) dev1
      in (cube\<lparr>uniformBuffer := Some uniBuffer, bindGroup := Some bGroup\<rparr>, dev2))"

definition excludeKeys :: "string list" where
  "excludeKeys = [''w'', ''W'', ''a'', ''A'', ''s'', ''S'', ''d'', ''D'',
                  ''ArrowUp'', ''ArrowDown'', ''ArrowLeft'', ''ArrowRight'',
                  ''q'', ''Q'', ''e'', ''E'']"

text \<open>Reading a JavaScript array at an index: \<^verbatim>\<open>undefined\<close> outside the array.\<close>

definition at_index :: "'a list \<Rightarrow> int \<Rightarrow> 'a option" where
  "at_index xs i = (if 0 \<le> i \<and> nat i < length xs then Some (xs ! nat i) else None)"

text \<open>
  The \<^verbatim>\<open>keydown\<close> listener. The calls of \<^verbatim>\<open>Math.random()\<close> in evaluation order:
  0 the texture, 1 to 3 the phase angles, 4 to 6 the translation, 7 to 9 the rotation,
  10 the scale.
\<close>

definition keydown :: "string \<Rightarrow> (nat \<Rightarrow> real) \<Rightarrow> 'c World \<Rightarrow> 'c World" where
  "keydown key rnd w =
     (let w1 = w\<lparr>keys := insert key (keys w)\<rparr>
      in if key \<in> set excludeKeys then w1
         else
           (let textures = [0, 1, 2];
                randomTexture = at_index textures \<lfloor>rnd 0 * real (length textures)\<rfloor>;
                randomAngle1 = rnd 1 * pi * 2;
                randomAngle2 = rnd 2 * pi * 2;
                randomAngle3 = rnd 3 * pi * 2;
                newCube = \<lparr>tx = (rnd 4 - 0.5) * 50,
                           ty = (rnd 5 - 0.5) * 50,
                           tz = (rnd 6 - 0.5) * 50,
                           rx = rnd 7 * pi * 2,
                           ry = rnd 8 * pi * 2,
                           rz = rnd 9 * pi * 2,
                           s = rnd 10 * 1.5 + 0.5,
                           order = ''TRS'',
                           uniformBuffer = None,
                           bindGroup = None,
                           textureView = randomTexture,
                           rotSpeedX = sin randomAngle1 * 2,
                           rotSpeedY = cos randomAngle2 * 2,
                           rotSpeedZ = sin randomAngle3 * 2\<rparr>;
                (newCube', dev') = createCubeBindGroup newCube (device w1)
            in w1\<lparr>cubes := cubes w1 @ [newCube'], device := dev'\<rparr>))"

definition keyup :: "string \<Rightarrow> 'c World \<Rightarrow> 'c World" where
  "keyup key w = w\<lparr>keys := keys w - {key}\<rparr>"

definition updateModelState :: "'c World \<Rightarrow> 'c World" where
  "updateModelState w =
     (let w1 = (if ''1'' \<in> keys w then w\<lparr>modelState := (modelState w)\<lparr>order := ''TRS''\<rparr>\<rparr> else w);
          w2 = (if ''2'' \<in> keys w1 then w1\<lparr>modelState := (modelState w1)\<lparr>order := ''RTS''\<rparr>\<rparr> else w1);
          w3 = (if ''3'' \<in> keys w2 then w2\<lparr>modelState := (modelState w2)\<lparr>order := ''SRT''\<rparr>\<rparr> else w2)
      in w3)"

definition buildModelMatrix :: "'m mat4 \<Rightarrow> CubeState \<Rightarrow> 'm" where
  "buildModelMatrix m cube =
     (let T = translation m (tx cube) (ty cube) (tz cube);
          S = scaling m (s cube) (s cube) (s cube);
          Rx = rotationX m (rx cube);
          Ry = rotationY m (ry cube);
          Rz = rotationZ m (rz cube);
          R = multiply m Rz (multiply m Ry Rx)
      in if order cube = ''TRS'' then multiply m T (multiply m R S)
         else if order cube = ''RTS'' then multiply m R (multiply m T S)
         else if order cube = ''SRT'' then multiply m S (multiply m R T)
         else multiply m T (multiply m R S))"

section \<open>The frame\<close>

definition frame_dt :: "real \<Rightarrow> real \<Rightarrow> real" where
  "frame_dt lastT now = min 0.033 ((now - lastT) / 1000)"

text \<open>The three assignments that advance the rotation of one object.\<close>

definition integrate :: "real \<Rightarrow> CubeState \<Rightarrow> CubeState" where
  "integrate dt cube =
     (let c1 = cube\<lparr>rx := rx cube + rotSpeedX cube * dt\<rparr>;
          c2 = c1\<lparr>ry := ry c1 + rotSpeedY c1 * dt\<rparr>;
          c3 = c2\<lparr>rz := rz c2 + rotSpeedZ c2 * dt\<rparr>
      in c3)"

text \<open>
  The loop \<^verbatim>\<open>for (const cube of cubes)\<close>: the cubes after the loop and the commands
  it issued. An object is truthy, \<^verbatim>\<open>undefined\<close> is not.
\<close>

fun cubeLoop :: "'m mat4 \<Rightarrow> 'm \<Rightarrow> real \<Rightarrow> CubeState list \<Rightarrow> CubeState list \<times> 'm gpu_cmd list" where
  "cubeLoop m vp dt [] = ([], [])"
| "cubeLoop m vp dt (cube # rest) =
     (let cube' = integrate dt cube;
          cubeModel = buildModelMatrix m cube';
          cubeMvp = multiply m vp cubeModel;
          cmds = (case (uniformBuffer cube', bindGroup cube') of
                    (Some ub, Some bg) \<Rightarrow> [WriteBuffer ub cubeMvp, SetBindGroup bg, Draw vertexCount]
                  | _ \<Rightarrow> []);
          (rest', cmds') = cubeLoop m vp dt rest
      in (cube' # rest', cmds @ cmds'))"

text \<open>
  \<^verbatim>\<open>frame(now)\<close> with the canvas size read for the aspect ratio (\<^verbatim>\<open>resize\<close> keeps
  both sides at 1 or more): the state after the frame and the commands of the render
  pass that concern the objects.
\<close>

definition frame :: "'m mat4 \<Rightarrow> ('m, 'c) Camera \<Rightarrow> real \<Rightarrow> nat \<Rightarrow> nat \<Rightarrow> 'c World
                       \<Rightarrow> 'c World \<times> 'm gpu_cmd list" where
  "frame m cam now canvas_width canvas_height w =
     (let dt = frame_dt (lastTime w) now;
          w1 = w\<lparr>lastTime := now\<rparr>;
          w2 = w1\<lparr>camera := update cam (keys w1) dt (camera w1)\<rparr>;
          w3 = updateModelState w2;
          aspect = real canvas_width / real canvas_height;
          proj = perspective m ((60 * pi) / 180) aspect 0.1 100.0;
          view = getViewMatrix cam (camera w3);
          vp = multiply m proj view;
          w4 = w3\<lparr>modelState := integrate dt (modelState w3)\<rparr>;
          model = buildModelMatrix m (modelState w4);
          mvp = multiply m vp model;
          cmds0 = [WriteBuffer (primaryUniformBuffer w4) mvp,
                   SetBindGroup (primaryBindGroup w4), Draw vertexCount];
          (cubes', cmds) = cubeLoop m vp dt (cubes w4)
      in (w4\<lparr>cubes := cubes'\<rparr>, cmds0 @ cmds))"

section \<open>Start-up and runs\<close>

text \<open>
  The state when the module has been evaluated: the vertex buffer and the primary
  uniform buffer are the first two buffers, the primary bind group is the first bind
  group, no cube has been spawned. \<open>rnd\<close> gives the three calls of \<^verbatim>\<open>Math.random()\<close>
  for the initial angles, \<open>t0\<close> is \<^verbatim>\<open>performance.now()\<close>.
\<close>

definition initWorld :: "'c \<Rightarrow> real \<Rightarrow> (nat \<Rightarrow> real) \<Rightarrow> 'c World" where
  "initWorld cam0 t0 rnd =
     (let dev0 = \<lparr>buffers = 0, bindGroups = []\<rparr>;
          (vertexBuffer, dev1) = createBuffer dev0;
          (uniformBuffer0, dev2) = createBuffer dev1;
          (bindGroup0, dev3) = createBindGroup uniformBuffer0 (Some 0) dev2;
          initialAngle1 = rnd 0 * pi * 2;
          initialAngle2 = rnd 1 * pi * 2;
          initialAngle3 = rnd 2 * pi * 2
      in \<lparr>keys = {}, cubes = [],
          modelState = \<lparr>tx = 0, ty = 0, tz = 0, rx = 0, ry = 0, rz = 0, s = 1,
                         order = ''TRS'',
                         uniformBuffer = None, bindGroup = None, textureView = None,
                         rotSpeedX = sin initialAngle1 * 2,
                         rotSpeedY = cos initialAngle2 * 2,
                         rotSpeedZ = sin initialAngle3 * 2\<rparr>,
          lastTime = t0, camera = cam0, device = dev3,
          primaryUniformBuffer = uniformBuffer0, primaryBindGroup = bindGroup0\<rparr>)"

text \<open>The events the page delivers, one at a time.\<close>

datatype event =
    KeyDown string "nat \<Rightarrow> real"
  | KeyUp string
  | AnimationFrame real nat nat

fun step :: "'m mat4 \<Rightarrow> ('m, 'c) Camera \<Rightarrow> 'c World \<Rightarrow> event \<Rightarrow> 'c World" where
  "step m cam w (KeyDown key rnd) = keydown key rnd w"
| "step m cam w (KeyUp key) = keyup key w"
| "step m cam w (AnimationFrame now cw ch) = fst (frame m cam now cw ch w)"

fun run :: "'m mat4 \<Rightarrow> ('m, 'c) Camera \<Rightarrow> 'c World \<Rightarrow> event list \<Rightarrow> 'c World" where
  "run m cam w [] = w"
| "run m cam w (ev # evs) = run m cam (step m cam w ev) evs"

section \<open>An instance of the collaborators for evaluation\<close>

text \<open>
  Concrete inputs need a concrete matrix library and camera. This instance records how a
  matrix was built instead of computing it, so two results are equal only when they were
  built by the same calls; its camera stands still. The theorems below hold for every
  instance, this one serves to evaluate them.
\<close>

datatype mexpr =
    Translation real real real
  | Scaling real real real
  | RotationX real
  | RotationY real
  | RotationZ real
  | Multiply mexpr mexpr
  | Perspective real real real real
  | ViewMatrix

definition recorded :: "mexpr mat4" where
  "recorded = \<lparr>translation = Translation, scaling = Scaling,
                rotationX = RotationX, rotationY = RotationY, rotationZ = RotationZ,
                multiply = Multiply, perspective = Perspective\<rparr>"

definition still :: "(mexpr, unit) Camera" where
  "still = \<lparr>update = (\<lambda>held dt c. c), getViewMatrix = (\<lambda>c. ViewMatrix)\<rparr>"

text \<open>
  Inputs for evaluation: a start-up state with every random draw 0, the same after a
  key-down of "x" (one spawned cube), the same after key-downs of "1" and "2" (both held,
  two spawned cubes), and a cube with a given order.
\<close>

definition world0 :: "unit World" where
  "world0 = initWorld () 0 (\<lambda>k. 0)"

definition world1 :: "unit World" where
  "world1 = keydown ''x'' (\<lambda>k. 0) world0"

definition held12 :: "unit World" where
  "held12 = keydown ''2'' (\<lambda>k. 0) (keydown ''1'' (\<lambda>k. 0) world0)"

definition sample :: "string \<Rightarrow> CubeState" where
  "sample ord = \<lparr>tx = 1, ty = 2, tz = 3, rx = 4, ry = 5, rz = 6, s = 7, order = ord,
      uniformBuffer = None, bindGroup = None, textureView = None,
      rotSpeedX = 0, rotSpeedY = 0, rotSpeedZ = 0\<rparr>"

section \<open>Notions of the specification\<close>

text \<open>
  The definitions of this section do not come from the program. The first is the
  colour the specification gives to the texel at column \<open>x\<close> and row \<open>y\<close> of the
  fallback image. The second says of a sequence of events, starting with the keys
  \<open>held\<close>, that neither of the toggle keys "1" and "3" is held at any of its frames.
\<close>

definition checkerPixel :: "nat \<Rightarrow> nat \<Rightarrow> 8 word \<times> 8 word \<times> 8 word \<times> 8 word" where
  "checkerPixel x y =
     (if (drop_bit 4 x AND 1) XOR (drop_bit 4 y AND 1) \<noteq> 0
      then (230, 230, 230, 255) else (35, 35, 35, 255))"

fun noOtherToggle :: "string set \<Rightarrow> event list \<Rightarrow> bool" where
  "noOtherToggle held [] = True"
| "noOtherToggle held (KeyDown key rnd # evs) = noOtherToggle (insert key held) evs"
| "noOtherToggle held (KeyUp key # evs) = noOtherToggle (held - {key}) evs"
| "noOtherToggle held (AnimationFrame now cw ch # evs) =
     (''1'' \<notin> held \<and> ''3'' \<notin> held \<and> noOtherToggle held evs)"

text \<open>
  The invariant of the GPU resources, used in the proofs: a cube is ready on a device when
  it has a uniform buffer and a bind group that the device has created, the bind group
  being the one created with that buffer and the cube's texture view; in a state that
  owns its resources the two primary handles exist, every cube is ready, and no two
  objects share a uniform buffer or a bind group.
\<close>

definition ready :: "GPUDevice \<Rightarrow> CubeState \<Rightarrow> bool" where
  "ready dev c =
     (case (uniformBuffer c, bindGroup c) of
        (Some b, Some g) \<Rightarrow>
           b < buffers dev \<and> g < length (bindGroups dev) \<and> bindGroups dev ! g = (b, textureView c)
      | _ \<Rightarrow> False)"

definition resourcesOwned :: "'c World \<Rightarrow> bool" where
  "resourcesOwned w \<longleftrightarrow>
     primaryUniformBuffer w < buffers (device w)
   \<and> primaryBindGroup w < length (bindGroups (device w))
   \<and> (\<forall>c \<in> set (cubes w). ready (device w) c)
   \<and> distinct (Some (primaryUniformBuffer w) # map uniformBuffer (cubes w))
   \<and> distinct (Some (primaryBindGroup w) # map bindGroup (cubes w))"

section \<open>Properties\<close>

subsection \<open>The frame and the handlers, field by field\<close>

lemma integrate_fields:
  "rx (integrate dt c) = rx c + rotSpeedX c * dt"
  "ry (integrate dt c) = ry c + rotSpeedY c * dt"
  "rz (integrate dt c) = rz c + rotSpeedZ c * dt"
  "tx (integrate dt c) = tx c" "ty (integrate dt c) = ty c" "tz (integrate dt c) = tz c"
  "s (integrate dt c) = s c" "order (integrate dt c) = order c"
  "uniformBuffer (integrate dt c) = uniformBuffer c"
  "bindGroup (integrate dt c) = bindGroup c"
  "textureView (integrate dt c) = textureView c"
  "rotSpeedX (integrate dt c) = rotSpeedX c"
  "rotSpeedY (integrate dt c) = rotSpeedY c"
  "rotSpeedZ (integrate dt c) = rotSpeedZ c"
  by (simp_all add: integrate_def)

lemma updateModelState_fields:
  "rx (modelState (updateModelState w)) = rx (modelState w)"
  "ry (modelState (updateModelState w)) = ry (modelState w)"
  "rz (modelState (updateModelState w)) = rz (modelState w)"
  "rotSpeedX (modelState (updateModelState w)) = rotSpeedX (modelState w)"
  "rotSpeedY (modelState (updateModelState w)) = rotSpeedY (modelState w)"
  "rotSpeedZ (modelState (updateModelState w)) = rotSpeedZ (modelState w)"
  "cubes (updateModelState w) = cubes w"
  "keys (updateModelState w) = keys w"
  by (simp_all add: updateModelState_def)

lemma updateModelState_order:
  "order (modelState (updateModelState w)) =
     (if ''3'' \<in> keys w then ''SRT''
      else if ''2'' \<in> keys w then ''RTS''
      else if ''1'' \<in> keys w then ''TRS''
      else order (modelState w))"
  by (simp add: updateModelState_def)

lemma cubeLoop_fst: "fst (cubeLoop m vp dt cs) = map (integrate dt) cs"
  by (induction cs) (auto simp: Let_def split: prod.splits)

lemma frame_cubes: "cubes (fst (frame m cam now cw ch w)) = map (integrate (frame_dt (lastTime w) now)) (cubes w)"
  by (simp add: frame_def Let_def updateModelState_def cubeLoop_fst case_prod_beta)

lemma frame_modelState:
  "modelState (fst (frame m cam now cw ch w)) =
     integrate (frame_dt (lastTime w) now) (modelState (updateModelState w))"
  by (simp add: frame_def Let_def updateModelState_def cubeLoop_fst case_prod_beta)

lemma frame_keys: "keys (fst (frame m cam now cw ch w)) = keys w"
  by (simp add: frame_def Let_def updateModelState_def cubeLoop_fst case_prod_beta)

lemma frame_lastTime: "lastTime (fst (frame m cam now cw ch w)) = now"
  by (simp add: frame_def Let_def updateModelState_def cubeLoop_fst case_prod_beta)

lemma frame_device: "device (fst (frame m cam now cw ch w)) = device w"
  by (simp add: frame_def Let_def updateModelState_def cubeLoop_fst case_prod_beta)

lemma frame_camera: "camera (fst (frame m cam now cw ch w)) = update cam (keys w) (frame_dt (lastTime w) now) (camera w)"
  by (simp add: frame_def Let_def updateModelState_def cubeLoop_fst case_prod_beta)

lemma frame_primary:
  "primaryUniformBuffer (fst (frame m cam now cw ch w)) = primaryUniformBuffer w"
  "primaryBindGroup (fst (frame m cam now cw ch w)) = primaryBindGroup w"
  by (simp_all add: frame_def Let_def updateModelState_def case_prod_beta)

lemma frame_order:
  "order (modelState (fst (frame m cam now cw ch w))) =
     (if ''3'' \<in> keys w then ''SRT''
      else if ''2'' \<in> keys w then ''RTS''
      else if ''1'' \<in> keys w then ''TRS''
      else order (modelState w))"
  by (simp add: frame_modelState integrate_fields updateModelState_order)

lemma frame_cmds:
  "snd (frame m cam now cw ch w) =
     (let dt = frame_dt (lastTime w) now;
          vp = multiply m (perspective m ((60 * pi) / 180) (real cw / real ch) 0.1 100)
                 (getViewMatrix cam (update cam (keys w) dt (camera w)));
          primary = integrate dt (modelState (updateModelState w))
      in [WriteBuffer (primaryUniformBuffer w) (multiply m vp (buildModelMatrix m primary)),
          SetBindGroup (primaryBindGroup w), Draw vertexCount]
         @ snd (cubeLoop m vp dt (cubes w)))"
  by (simp add: frame_def Let_def updateModelState_def case_prod_beta)

lemma frame_primary_upload:
  "hd (snd (frame m cam now cw ch w)) =
     (let w' = fst (frame m cam now cw ch w);
          vp = multiply m (perspective m ((60 * pi) / 180) (real cw / real ch) 0.1 100)
                 (getViewMatrix cam (camera w'))
      in WriteBuffer (primaryUniformBuffer w) (multiply m vp (buildModelMatrix m (modelState w'))))"
  by (simp add: frame_cmds Let_def frame_modelState frame_camera)

lemma keydown_excluded:
  "key \<in> set excludeKeys \<Longrightarrow> keydown key rnd w = w\<lparr>keys := insert key (keys w)\<rparr>"
  by (simp add: keydown_def)

lemma keydown_spawn:
  "key \<notin> set excludeKeys \<Longrightarrow>
   cubes (keydown key rnd w) = cubes w @
     [\<lparr>tx = (rnd 4 - 0.5) * 50, ty = (rnd 5 - 0.5) * 50, tz = (rnd 6 - 0.5) * 50,
       rx = rnd 7 * pi * 2, ry = rnd 8 * pi * 2, rz = rnd 9 * pi * 2,
       s = rnd 10 * 1.5 + 0.5, order = ''TRS'',
       uniformBuffer = Some (buffers (device w)),
       bindGroup = Some (length (bindGroups (device w))),
       textureView = at_index [0, 1, 2] \<lfloor>rnd 0 * 3\<rfloor>,
       rotSpeedX = sin (rnd 1 * pi * 2) * 2,
       rotSpeedY = cos (rnd 2 * pi * 2) * 2,
       rotSpeedZ = sin (rnd 3 * pi * 2) * 2\<rparr>]"
  by (simp add: keydown_def Let_def createCubeBindGroup_def createBuffer_def createBindGroup_def)

lemma keydown_device:
  "key \<notin> set excludeKeys \<Longrightarrow>
   device (keydown key rnd w) =
     \<lparr>buffers = buffers (device w) + 1,
      bindGroups = bindGroups (device w) @
        [(buffers (device w), at_index [0, 1, 2] \<lfloor>rnd 0 * 3\<rfloor>)]\<rparr>"
  by (simp add: keydown_def Let_def createCubeBindGroup_def createBuffer_def createBindGroup_def)

lemma keydown_other:
  "modelState (keydown key rnd w) = modelState w"
  "keys (keydown key rnd w) = insert key (keys w)"
  "lastTime (keydown key rnd w) = lastTime w"
  "primaryUniformBuffer (keydown key rnd w) = primaryUniformBuffer w"
  "primaryBindGroup (keydown key rnd w) = primaryBindGroup w"
  by (simp_all add: keydown_def Let_def case_prod_beta)

lemma keyup_fields:
  "modelState (keyup key w) = modelState w" "keys (keyup key w) = keys w - {key}"
  "cubes (keyup key w) = cubes w" "device (keyup key w) = device w"
  by (simp_all add: keyup_def)

lemma toggle_keys_not_excluded:
  "''1'' \<notin> set excludeKeys" "''2'' \<notin> set excludeKeys" "''3'' \<notin> set excludeKeys"
  "''x'' \<notin> set excludeKeys" "''w'' \<in> set excludeKeys"
  by (simp_all add: excludeKeys_def)

lemma initWorld_cubes: "cubes (initWorld cam0 t0 rnd) = []"
  by (simp add: initWorld_def Let_def case_prod_beta)

lemma initWorld_keys: "keys (initWorld cam0 t0 rnd) = {}"
  by (simp add: initWorld_def Let_def case_prod_beta)

lemma run_spawned_TRS:
  "\<forall>c \<in> set (cubes w). order c = ''TRS'' \<Longrightarrow>
   \<forall>c \<in> set (cubes (run m cam w evs)). order c = ''TRS''"
proof (induction evs arbitrary: w)
  case Nil
  then show ?case by simp
next
  case (Cons ev evs)
  have "\<forall>c \<in> set (cubes (step m cam w ev)). order c = ''TRS''"
  proof (cases ev)
    case (KeyDown key rnd)
    then show ?thesis using Cons.prems
      by (cases "key \<in> set excludeKeys") (simp_all add: keydown_excluded keydown_spawn)
  next
    case (KeyUp key)
    then show ?thesis using Cons.prems by (simp add: keyup_fields)
  next
    case (AnimationFrame now cw ch)
    then show ?thesis using Cons.prems by (simp add: frame_cubes integrate_fields)
  qed
  then show ?case using Cons.IH by simp
qed

lemma run_held_key_spawned:
  "keys w \<subseteq> set excludeKeys \<or> cubes w \<noteq> [] \<Longrightarrow>
   keys (run m cam w evs) \<subseteq> set excludeKeys \<or> cubes (run m cam w evs) \<noteq> []"
proof (induction evs arbitrary: w)
  case Nil
  then show ?case by simp
next
  case (Cons ev evs)
  have "keys (step m cam w ev) \<subseteq> set excludeKeys \<or> cubes (step m cam w ev) \<noteq> []"
  proof (cases ev)
    case (KeyDown key rnd)
    then show ?thesis using Cons.prems
      by (cases "key \<in> set excludeKeys") (auto simp: keydown_excluded keydown_spawn keydown_other)
  next
    case (KeyUp key)
    then show ?thesis using Cons.prems by (auto simp: keyup_fields)
  next
    case (AnimationFrame now cw ch)
    then show ?thesis using Cons.prems by (simp add: frame_cubes frame_keys)
  qed
  then show ?case using Cons.IH by simp
qed

subsection \<open>The states used for evaluation\<close>

lemma world0_simps: "cubes world0 = []" "keys world0 = {}" "lastTime world0 = 0"
  by (simp_all add: world0_def initWorld_def Let_def createBuffer_def createBindGroup_def)

lemma world0_state:
  "device world0 = \<lparr>buffers = 2, bindGroups = [(1, Some 0)]\<rparr>"
  "primaryUniformBuffer world0 = 1" "primaryBindGroup world0 = 0"
  "modelState world0 =
     \<lparr>tx = 0, ty = 0, tz = 0, rx = 0, ry = 0, rz = 0, s = 1, order = ''TRS'',
      uniformBuffer = None, bindGroup = None, textureView = None,
      rotSpeedX = 0, rotSpeedY = 2, rotSpeedZ = 0\<rparr>"
  by (simp_all add: world0_def initWorld_def Let_def createBuffer_def createBindGroup_def)

lemma world1_cubes:
  "cubes world1 =
     [\<lparr>tx = - 25, ty = - 25, tz = - 25, rx = 0, ry = 0, rz = 0, s = 1 / 2, order = ''TRS'',
       uniformBuffer = Some 2, bindGroup = Some 1, textureView = Some 0,
       rotSpeedX = 0, rotSpeedY = 2, rotSpeedZ = 0\<rparr>]"
  by (simp add: world1_def keydown_spawn toggle_keys_not_excluded world0_simps at_index_def)
     (simp add: world0_def initWorld_def Let_def createBuffer_def createBindGroup_def)

lemma world1_simps:
  "lastTime world1 = 0" "keys world1 = {''x''}"
  "rx (modelState world1) = 0" "ry (modelState world1) = 0" "rz (modelState world1) = 0"
  "rotSpeedX (modelState world1) = 0" "rotSpeedY (modelState world1) = 2"
  "rotSpeedZ (modelState world1) = 0" "order (modelState world1) = ''TRS''"
  by (simp_all add: world1_def keydown_other world0_def initWorld_def Let_def
        createBuffer_def createBindGroup_def)

lemma run_world0:
  "run recorded still (initWorld () 0 (\<lambda>k. 0)) [KeyDown ''x'' (\<lambda>k. 0)] = world1"
  by (simp add: world1_def world0_def)

lemma run_toggle:
  "run recorded still (initWorld () 0 (\<lambda>k. 0)) [KeyDown ''2'' (\<lambda>k. 0), AnimationFrame 16 800 600]
     = fst (frame recorded still 16 800 600 (keydown ''2'' (\<lambda>k. 0) world0))"
  by (simp add: world0_def)

lemma run_held12:
  "run recorded still (initWorld () 0 (\<lambda>k. 0)) [KeyDown ''1'' (\<lambda>k. 0), KeyDown ''2'' (\<lambda>k. 0)]
     = held12"
  by (simp add: held12_def world0_def)

lemma held12_simps:
  "keys held12 = {''2'', ''1''}" "map order (cubes held12) = [''TRS'', ''TRS'']"
  "order (modelState held12) = ''TRS''"
  by (simp_all add: held12_def keydown_other keydown_spawn toggle_keys_not_excluded
        world0_simps world0_state)

subsection \<open>C2: the model matrix\<close>

text \<open>
  C2. For every object state and every matrix library, \<^verbatim>\<open>buildModelMatrix\<close> builds
  \<open>T\<close> from the translation, \<open>S\<close> from the uniform scale and \<open>R = Rz \<cdot> (Ry \<cdot> Rx)\<close>, and
  returns \<open>T \<cdot> (R \<cdot> S)\<close> for the order TRS, \<open>R \<cdot> (T \<cdot> S)\<close> for RTS, \<open>S \<cdot> (R \<cdot> T)\<close> for
  SRT, and \<open>T \<cdot> (R \<cdot> S)\<close> again for any other order value.
\<close>

theorem buildModelMatrix_composition:
  "let T = translation m (tx cube) (ty cube) (tz cube);
       S = scaling m (s cube) (s cube) (s cube);
       R = multiply m (rotationZ m (rz cube))
             (multiply m (rotationY m (ry cube)) (rotationX m (rx cube)))
   in (order cube = ''TRS'' \<longrightarrow> buildModelMatrix m cube = multiply m T (multiply m R S))
    \<and> (order cube = ''RTS'' \<longrightarrow> buildModelMatrix m cube = multiply m R (multiply m T S))
    \<and> (order cube = ''SRT'' \<longrightarrow> buildModelMatrix m cube = multiply m S (multiply m R T))
    \<and> (order cube \<notin> {''TRS'', ''RTS'', ''SRT''} \<longrightarrow>
          buildModelMatrix m cube = multiply m T (multiply m R S))"
  by (simp add: buildModelMatrix_def Let_def)

text \<open>The four cases on the recording library, for a cube of each order.\<close>

theorem buildModelMatrix_composition_witness:
  "buildModelMatrix recorded (sample ''TRS'') =
     Multiply (Translation 1 2 3)
       (Multiply (Multiply (RotationZ 6) (Multiply (RotationY 5) (RotationX 4))) (Scaling 7 7 7))
   \<and> buildModelMatrix recorded (sample ''RTS'') =
     Multiply (Multiply (RotationZ 6) (Multiply (RotationY 5) (RotationX 4)))
       (Multiply (Translation 1 2 3) (Scaling 7 7 7))
   \<and> buildModelMatrix recorded (sample ''SRT'') =
     Multiply (Scaling 7 7 7)
       (Multiply (Multiply (RotationZ 6) (Multiply (RotationY 5) (RotationX 4))) (Translation 1 2 3))
   \<and> ''XYZ'' \<notin> {''TRS'', ''RTS'', ''SRT''}
   \<and> buildModelMatrix recorded (sample ''XYZ'') =
     Multiply (Translation 1 2 3)
       (Multiply (Multiply (RotationZ 6) (Multiply (RotationY 5) (RotationX 4))) (Scaling 7 7 7))"
  using buildModelMatrix_composition [where m = recorded and cube = "sample ''TRS''"]
        buildModelMatrix_composition [where m = recorded and cube = "sample ''RTS''"]
        buildModelMatrix_composition [where m = recorded and cube = "sample ''SRT''"]
        buildModelMatrix_composition [where m = recorded and cube = "sample ''XYZ''"]
  by (simp add: sample_def recorded_def Let_def)

subsection \<open>C3: the integration step\<close>

text \<open>
  C3 as stated fails: the ceiling of the program is the literal 0.033, not 1/30. For
  the timestamps 0 ms and 50 ms the step is neither \<open>min\<close> of the elapsed seconds
  and 1/30, nor 1/30.
\<close>

theorem frame_dt_counterexample:
  "frame_dt 0 50 \<noteq> min ((50 - 0) / 1000) (1 / 30) \<and> frame_dt 0 50 \<noteq> 1 / 30"
  by (simp add: frame_dt_def)

text \<open>
  C3, amended. The step of a frame is \<open>min\<close> of the elapsed seconds and 0.033; for
  the timestamps 0 ms and 50 ms it is the ceiling 0.033, not 0.05. It is the step the
  camera, the primary object and every spawned object are advanced by, and the frame
  stores its timestamp for the next one.
\<close>

theorem frame_dt_clamp:
  "frame_dt lastT now = min ((now - lastT) / 1000) (33 / 1000)
   \<and> frame_dt 0 50 = 33 / 1000 \<and> frame_dt 0 50 \<noteq> 5 / 100
   \<and> lastTime (fst (frame m cam now cw ch w)) = now
   \<and> camera (fst (frame m cam now cw ch w)) =
       update cam (keys w) (min ((now - lastTime w) / 1000) (33 / 1000)) (camera w)
   \<and> modelState (fst (frame m cam now cw ch w)) =
       integrate (min ((now - lastTime w) / 1000) (33 / 1000)) (modelState (updateModelState w))
   \<and> cubes (fst (frame m cam now cw ch w)) =
       map (integrate (min ((now - lastTime w) / 1000) (33 / 1000))) (cubes w)"
proof -
  have dt: "frame_dt a b = min ((b - a) / 1000) (33 / 1000)" for a b
    by (simp add: frame_dt_def min.commute)
  have "frame_dt 0 50 = 33 / 1000" "frame_dt 0 50 \<noteq> 5 / 100"
    by (simp_all add: frame_dt_def)
  then show ?thesis
    using dt frame_lastTime [of m cam now cw ch w] frame_camera [of m cam now cw ch w]
      frame_modelState [of m cam now cw ch w] frame_cubes [of m cam now cw ch w]
    by simp
qed

subsection \<open>C4: which keys spawn\<close>

text \<open>
  C4 as stated fails: the keys "1", "2" and "3" are not in \<^verbatim>\<open>excludeKeys\<close>, so a
  key-down of any of them at start-up makes the object sequence one longer.
\<close>

theorem keydown_toggle_key_counterexample:
  "length (cubes (keydown ''1'' (\<lambda>k. 0) world0)) = length (cubes world0) + 1
   \<and> length (cubes (keydown ''2'' (\<lambda>k. 0) world0)) = length (cubes world0) + 1
   \<and> length (cubes (keydown ''3'' (\<lambda>k. 0) world0)) = length (cubes world0) + 1"
  by (simp add: keydown_spawn toggle_keys_not_excluded)

text \<open>
  C4, amended. A key-down appends one object exactly when the key is not one of the
  sixteen keys of \<^verbatim>\<open>excludeKeys\<close> (w, a, s, d, q, e in both cases and the four arrow
  keys); the toggle keys "1", "2" and "3" are not among them, so each of them spawns.
\<close>

theorem keydown_spawns_unless_excluded:
  "length (cubes (keydown key rnd w)) =
     (if key \<in> set excludeKeys then length (cubes w) else length (cubes w) + 1)
   \<and> set excludeKeys = {''w'', ''W'', ''a'', ''A'', ''s'', ''S'', ''d'', ''D'',
        ''ArrowUp'', ''ArrowDown'', ''ArrowLeft'', ''ArrowRight'', ''q'', ''Q'', ''e'', ''E''}
   \<and> (key \<in> {''1'', ''2'', ''3''} \<longrightarrow>
        length (cubes (keydown key rnd w)) = length (cubes w) + 1)"
proof -
  have a: "length (cubes (keydown key rnd w)) =
     (if key \<in> set excludeKeys then length (cubes w) else length (cubes w) + 1)"
    by (simp add: keydown_spawn keydown_excluded)
  have b: "set excludeKeys = {''w'', ''W'', ''a'', ''A'', ''s'', ''S'', ''d'', ''D'',
        ''ArrowUp'', ''ArrowDown'', ''ArrowLeft'', ''ArrowRight'', ''q'', ''Q'', ''e'', ''E''}"
    by (simp add: excludeKeys_def)
  have c: "key \<in> {''1'', ''2'', ''3''} \<Longrightarrow> key \<notin> set excludeKeys"
    using toggle_keys_not_excluded by auto
  show ?thesis using a b c by simp
qed

text \<open>At start-up: "2" spawns, "w" does not.\<close>

theorem keydown_spawns_unless_excluded_witness:
  "''2'' \<in> {''1'', ''2'', ''3''}
   \<and> length (cubes (keydown ''2'' (\<lambda>k. 0) world0)) = 1
   \<and> length (cubes (keydown ''w'' (\<lambda>k. 0) world0)) = 0"
  using keydown_spawns_unless_excluded [of "''2''" "\<lambda>k. 0" world0]
        keydown_spawns_unless_excluded [of "''w''" "\<lambda>k. 0" world0]
  by (simp add: world0_simps toggle_keys_not_excluded)

subsection \<open>C5: the spawned object\<close>

text \<open>
  C5. For a key that is not excluded and random draws in \<open>[0, 1)\<close>, the key-down handler
  appends exactly one object; its scale is in \<open>[0.5, 2)\<close>, each translation component in
  \<open>[-25, 25]\<close>, each initial angle in \<open>[0, 2\<pi>)\<close>, each rotation speed is twice the sine
  or cosine of its own random phase angle and lies in \<open>[-2, 2]\<close>, and its order is TRS.
  The key "x" is not excluded; a key-down of "w" leaves the length of the sequence as
  it is.
\<close>

theorem keydown_spawn_ranges:
  assumes "key \<notin> set excludeKeys" and "\<forall>k. 0 \<le> rnd k \<and> rnd k < 1"
  shows "let w' = keydown key rnd w; c = last (cubes w')
         in cubes w' = cubes w @ [c]
          \<and> length (cubes w') = length (cubes w) + 1
          \<and> 1 / 2 \<le> s c \<and> s c < 2
          \<and> - 25 \<le> tx c \<and> tx c \<le> 25
          \<and> - 25 \<le> ty c \<and> ty c \<le> 25
          \<and> - 25 \<le> tz c \<and> tz c \<le> 25
          \<and> 0 \<le> rx c \<and> rx c < 2 * pi
          \<and> 0 \<le> ry c \<and> ry c < 2 * pi
          \<and> 0 \<le> rz c \<and> rz c < 2 * pi
          \<and> rotSpeedX c = sin (rnd 1 * pi * 2) * 2 \<and> - 2 \<le> rotSpeedX c \<and> rotSpeedX c \<le> 2
          \<and> rotSpeedY c = cos (rnd 2 * pi * 2) * 2 \<and> - 2 \<le> rotSpeedY c \<and> rotSpeedY c \<le> 2
          \<and> rotSpeedZ c = sin (rnd 3 * pi * 2) * 2 \<and> - 2 \<le> rotSpeedZ c \<and> rotSpeedZ c \<le> 2
          \<and> order c = ''TRS''
          \<and> ''x'' \<notin> set excludeKeys
          \<and> length (cubes (keydown ''w'' rnd w)) = length (cubes w)"
proof -
  have r: "0 \<le> rnd k" "rnd k < 1" for k using assms(2) by auto
  have ang: "0 \<le> rnd k * pi * 2" "rnd k * pi * 2 < 2 * pi" for k
    using r [of k] pi_gt_zero by (simp_all add: mult.commute)
  have sn: "- 2 \<le> sin a * 2" "sin a * 2 \<le> 2" for a :: real
    using sin_ge_minus_one [of a] sin_le_one [of a] by linarith+
  have cs: "- 2 \<le> cos a * 2" "cos a * 2 \<le> 2" for a :: real
    using cos_ge_minus_one [of a] cos_le_one [of a] by linarith+
  have tr: "- 25 \<le> (rnd k - 0.5) * 50" "(rnd k - 0.5) * 50 \<le> 25" for k
    using r [of k] by simp_all
  have sc: "1 / 2 \<le> rnd 10 * 1.5 + 0.5" "rnd 10 * 1.5 + 0.5 < 2"
    using r [of 10] by simp_all
  have w: "length (cubes (keydown ''w'' rnd w)) = length (cubes w)"
    by (simp add: keydown_excluded toggle_keys_not_excluded)
  show ?thesis
    using ang sn cs tr sc w
    by (simp add: Let_def keydown_spawn [OF assms(1)] toggle_keys_not_excluded)
qed

text \<open>At start-up with every draw 0: "x" spawns one cube.\<close>

theorem keydown_spawn_ranges_witness:
  "''x'' \<notin> set excludeKeys \<and> (\<forall>k::nat. (0::real) \<le> 0 \<and> (0::real) < 1)
   \<and> length (cubes (keydown ''x'' (\<lambda>k. 0) world0)) = 1
   \<and> s (last (cubes (keydown ''x'' (\<lambda>k. 0) world0))) < 2
   \<and> order (last (cubes (keydown ''x'' (\<lambda>k. 0) world0))) = ''TRS''
   \<and> length (cubes (keydown ''w'' (\<lambda>k. 0) world0)) = 0"
proof -
  have k: "''x'' \<notin> set excludeKeys" by (simp add: excludeKeys_def)
  have r: "\<forall>k::nat. 0 \<le> (\<lambda>k. 0::real) k \<and> (\<lambda>k. 0::real) k < 1" by simp
  show ?thesis
    using k keydown_spawn_ranges [OF k r, of world0]
    by (simp add: Let_def world0_simps)
qed

subsection \<open>C6: the checkerboard fallback\<close>

lemma checker_int_nat:
  "((drop_bit 4 (int x) AND 1) XOR (drop_bit 4 (int y) AND 1) \<noteq> 0)
     = ((drop_bit 4 x AND 1) XOR (drop_bit 4 y AND 1) \<noteq> 0)"
proof -
  have "(drop_bit 4 (int x) AND 1) XOR (drop_bit 4 (int y) AND 1)
          = int ((drop_bit 4 x AND 1) XOR (drop_bit 4 y AND 1))"
    by (simp only: of_nat_xor_eq of_nat_and_eq of_nat_drop_bit of_nat_1)
  then show ?thesis by simp
qed

lemma xLoop_done: "\<not> x < w \<Longrightarrow> xLoop w y x data = data"
  by (subst xLoop.simps) simp

lemma xLoop_step:
  "x < w \<Longrightarrow> xLoop w y x data =
     xLoop w y (x + 1)
       (data[(y * w + x) * 4 + 0 :=
               (if (drop_bit 4 (int x) AND 1) XOR (drop_bit 4 (int y) AND 1) \<noteq> 0 then 230 else 35),
             (y * w + x) * 4 + 1 :=
               (if (drop_bit 4 (int x) AND 1) XOR (drop_bit 4 (int y) AND 1) \<noteq> 0 then 230 else 35),
             (y * w + x) * 4 + 2 :=
               (if (drop_bit 4 (int x) AND 1) XOR (drop_bit 4 (int y) AND 1) \<noteq> 0 then 230 else 35),
             (y * w + x) * 4 + 3 := 255])"
  by (subst xLoop.simps) (simp add: Let_def)

lemma yLoop_done: "\<not> y < h \<Longrightarrow> yLoop w h y data = data"
  by (subst yLoop.simps) simp

lemma yLoop_step: "y < h \<Longrightarrow> yLoop w h y data = yLoop w h (y + 1) (xLoop w y 0 data)"
  by (subst yLoop.simps) simp

lemma xLoop_length: "length (xLoop w y x data) = length data"
proof (induction w y x data rule: xLoop.induct)
  case (1 w y x data)
  show ?case
  proof (cases "x < w")
    case True
    then show ?thesis using "1.IH" [OF True refl refl refl] by (simp add: xLoop_step)
  next
    case False
    then show ?thesis by (simp add: xLoop_done)
  qed
qed

lemma xLoop_outside:
  "j < (y * w + x) * 4 \<or> (y * w + w) * 4 \<le> j \<Longrightarrow> xLoop w y x data ! j = data ! j"
proof (induction w y x data rule: xLoop.induct)
  case (1 w y x data)
  show ?case
  proof (cases "x < w")
    case True
    have far: "j < (y * w + (x + 1)) * 4 \<or> (y * w + w) * 4 \<le> j"
      using "1.prems" by auto
    have "j \<noteq> (y * w + x) * 4 + 0" "j \<noteq> (y * w + x) * 4 + 1"
         "j \<noteq> (y * w + x) * 4 + 2" "j \<noteq> (y * w + x) * 4 + 3"
      using True "1.prems" by auto
    then show ?thesis
      using "1.IH" [OF True refl refl refl far] by (simp add: xLoop_step [OF True])
  next
    case False
    then show ?thesis by (simp add: xLoop_done)
  qed
qed

lemma xLoop_inside:
  "y * w + x \<le> p \<Longrightarrow> p < y * w + w \<Longrightarrow> p * 4 + 3 < length data \<Longrightarrow>
   (xLoop w y x data ! (p * 4), xLoop w y x data ! (p * 4 + 1),
    xLoop w y x data ! (p * 4 + 2), xLoop w y x data ! (p * 4 + 3)) = checkerPixel (p - y * w) y"
proof (induction w y x data rule: xLoop.induct)
  case (1 w y x data)
  let ?i = "(y * w + x) * 4"
  let ?c = "if (drop_bit 4 (int x) AND 1) XOR (drop_bit 4 (int y) AND 1) \<noteq> 0 then 230 else 35 :: 8 word"
  let ?data = "data[?i + 0 := ?c, ?i + 1 := ?c, ?i + 2 := ?c, ?i + 3 := 255]"
  from "1.prems" have xw: "x < w" by simp
  have unfold: "xLoop w y x data = xLoop w y (x + 1) ?data"
    using xw by (rule xLoop_step)
  show ?case
  proof (cases "p = y * w + x")
    case True
    have out: "xLoop w y (x + 1) ?data ! j = ?data ! j" if "j < ?i + 4" for j
      using that by (intro xLoop_outside) simp
    have px: "p - y * w = x" using True by simp
    have bytes: "?data ! (p * 4) = ?c" "?data ! (p * 4 + 1) = ?c"
                "?data ! (p * 4 + 2) = ?c" "?data ! (p * 4 + 3) = 255"
      using True "1.prems"(3) by simp_all
    have "(drop_bit 4 (int x) AND 1) XOR (drop_bit 4 (int y) AND 1) \<noteq> 0
            \<longleftrightarrow> (drop_bit 4 x AND 1) XOR (drop_bit 4 y AND 1) \<noteq> 0"
      by (rule checker_int_nat)
    then have "(?c, ?c, ?c, 255) = checkerPixel x y"
      by (simp add: checkerPixel_def)
    moreover have "xLoop w y x data ! (p * 4) = ?c" "xLoop w y x data ! (p * 4 + 1) = ?c"
      "xLoop w y x data ! (p * 4 + 2) = ?c" "xLoop w y x data ! (p * 4 + 3) = 255"
      using True bytes out [of "p * 4"] out [of "p * 4 + 1"] out [of "p * 4 + 2"]
        out [of "p * 4 + 3"] unfold by simp_all
    ultimately show ?thesis using px by simp
  next
    case False
    with "1.prems" have "y * w + (x + 1) \<le> p" by simp
    moreover have "p * 4 + 3 < length ?data" using "1.prems"(3) by simp
    ultimately show ?thesis
      using "1.IH" [OF xw refl refl refl] "1.prems"(2) unfold by simp
  qed
qed

lemma yLoop_length: "length (yLoop w h y data) = length data"
proof (induction w h y data rule: yLoop.induct)
  case (1 w h y data)
  show ?case
  proof (cases "y < h")
    case True
    then show ?thesis using "1.IH" [OF True] by (simp add: yLoop_step xLoop_length)
  next
    case False
    then show ?thesis by (simp add: yLoop_done)
  qed
qed

lemma yLoop_below: "j < y * w * 4 \<Longrightarrow> yLoop w h y data ! j = data ! j"
proof (induction w h y data rule: yLoop.induct)
  case (1 w h y data)
  show ?case
  proof (cases "y < h")
    case True
    have "yLoop w h y data ! j = yLoop w h (y + 1) (xLoop w y 0 data) ! j"
      using True by (simp add: yLoop_step)
    also have "\<dots> = xLoop w y 0 data ! j"
      using True "1.prems" by (intro "1.IH") simp_all
    also have "\<dots> = data ! j"
      using "1.prems" by (intro xLoop_outside) simp
    finally show ?thesis .
  next
    case False
    then show ?thesis by (simp add: yLoop_done)
  qed
qed

lemma row_of_index:
  fixes p w y :: nat
  assumes "y * w \<le> p" "p < y * w + w"
  shows "p div w = y" "p mod w = p - y * w"
proof -
  have w: "0 < w" using assms by (cases w) simp_all
  define r where "r = p - y * w"
  have r: "p = y * w + r" "r < w"
    using assms by (simp_all add: r_def)
  show "p div w = y" using r w by simp
  show "p mod w = p - y * w" using r w by simp
qed

lemma yLoop_inside:
  "y * w \<le> p \<Longrightarrow> p < h * w \<Longrightarrow> p * 4 + 3 < length data \<Longrightarrow>
   (yLoop w h y data ! (p * 4), yLoop w h y data ! (p * 4 + 1),
    yLoop w h y data ! (p * 4 + 2), yLoop w h y data ! (p * 4 + 3))
     = checkerPixel (p mod w) (p div w)"
proof (induction w h y data rule: yLoop.induct)
  case (1 w h y data)
  have yh: "y < h"
  proof (rule ccontr)
    assume "\<not> y < h"
    then have "h * w \<le> y * w" by simp
    with "1.prems" show False by simp
  qed
  have unfold: "yLoop w h y data = yLoop w h (y + 1) (xLoop w y 0 data)"
    using yh by (rule yLoop_step)
  show ?case
  proof (cases "p < y * w + w")
    case True
    have keep: "yLoop w h (y + 1) (xLoop w y 0 data) ! j = xLoop w y 0 data ! j"
      if "j < p * 4 + 4" for j
      using that True by (intro yLoop_below) simp
    have row: "(xLoop w y 0 data ! (p * 4), xLoop w y 0 data ! (p * 4 + 1),
                xLoop w y 0 data ! (p * 4 + 2), xLoop w y 0 data ! (p * 4 + 3))
                 = checkerPixel (p - y * w) y"
      using "1.prems" True by (intro xLoop_inside) simp_all
    have "p div w = y" "p mod w = p - y * w"
      using row_of_index [OF "1.prems"(1) True] by simp_all
    then show ?thesis
      using row unfold keep [of "p * 4"] keep [of "p * 4 + 1"] keep [of "p * 4 + 2"]
        keep [of "p * 4 + 3"] by simp
  next
    case False
    then have "(y + 1) * w \<le> p" by simp
    moreover have "p * 4 + 3 < length (xLoop w y 0 data)"
      using "1.prems"(3) by (simp add: xLoop_length)
    ultimately show ?thesis
      using "1.IH" [OF yh] "1.prems"(2) unfold by simp
  qed
qed

lemma checkerboard_fields:
  "tex_width checkerboard = 128" "tex_height checkerboard = 128"
  "length (texels checkerboard) = 128 * 128 * 4"
  by (simp_all add: checkerboard_def Let_def yLoop_length)

lemma checkerboard_texel:
  assumes "x < 128" "y < 128"
  shows "texel checkerboard x y = checkerPixel x y"
proof -
  let ?p = "y * 128 + x"
  let ?d = "replicate (128 * 128 * 4) (0 :: 8 word)"
  have "(yLoop 128 128 0 ?d ! (?p * 4), yLoop 128 128 0 ?d ! (?p * 4 + 1),
         yLoop 128 128 0 ?d ! (?p * 4 + 2), yLoop 128 128 0 ?d ! (?p * 4 + 3))
          = checkerPixel (?p mod 128) (?p div 128)"
    using assms by (intro yLoop_inside) simp_all
  moreover have "?p mod 128 = x" "?p div 128 = y" using assms by simp_all
  ultimately show ?thesis
    by (simp add: texel_def checkerboard_def Let_def)
qed

text \<open>
  C6. When the load fails, whatever the failure, \<^verbatim>\<open>loadTextureOrCheckerboard\<close> returns
  the same texture of 128 by 128 texels and \<open>128 * 128 * 4\<close> bytes, in which the texel
  \<open>(x, y)\<close> is \<open>(230, 230, 230, 255)\<close> when \<open>((x >> 4) & 1) XOR ((y >> 4) & 1)\<close> is not zero
  and \<open>(35, 35, 35, 255)\<close> otherwise; the texels (0,0) and (16,16) are dark, (16,0) and
  (0,16) are light. The result is a texture in every case, never an error.
\<close>

theorem load_failure_gives_checkerboard:
  assumes "tryLoad outcome = Inl err" and "x < 128" and "y < 128"
  shows "loadTextureOrCheckerboard outcome = checkerboard
       \<and> tex_width (loadTextureOrCheckerboard outcome) = 128
       \<and> tex_height (loadTextureOrCheckerboard outcome) = 128
       \<and> length (texels (loadTextureOrCheckerboard outcome)) = 128 * 128 * 4
       \<and> texel (loadTextureOrCheckerboard outcome) x y =
           (if (drop_bit 4 x AND 1) XOR (drop_bit 4 y AND 1) \<noteq> 0
            then (230, 230, 230, 255) else (35, 35, 35, 255))
       \<and> texel (loadTextureOrCheckerboard outcome) 0 0 = (35, 35, 35, 255)
       \<and> texel (loadTextureOrCheckerboard outcome) 16 0 = (230, 230, 230, 255)
       \<and> texel (loadTextureOrCheckerboard outcome) 0 16 = (230, 230, 230, 255)
       \<and> texel (loadTextureOrCheckerboard outcome) 16 16 = (35, 35, 35, 255)"
proof -
  have fallback: "loadTextureOrCheckerboard outcome = checkerboard"
    using assms(1) by (simp add: loadTextureOrCheckerboard_def)
  have general: "texel checkerboard x y =
      (if (drop_bit 4 x AND 1) XOR (drop_bit 4 y AND 1) \<noteq> 0
       then (230, 230, 230, 255) else (35, 35, 35, 255))"
    using checkerboard_texel [OF assms(2,3)] by (simp add: checkerPixel_def)
  have corners: "texel checkerboard 0 0 = (35, 35, 35, 255)"
    "texel checkerboard 16 0 = (230, 230, 230, 255)"
    "texel checkerboard 0 16 = (230, 230, 230, 255)"
    "texel checkerboard 16 16 = (35, 35, 35, 255)"
    by (simp_all add: checkerboard_texel checkerPixel_def)
  show ?thesis
    using fallback general corners by (simp add: checkerboard_fields)
qed

text \<open>A response with status 404.\<close>

theorem load_failure_gives_checkerboard_witness:
  "tryLoad (Responded False 404 None) = Inl (HttpError 404)
   \<and> (17::nat) < 128 \<and> (5::nat) < 128
   \<and> tex_width (loadTextureOrCheckerboard (Responded False 404 None)) = 128
   \<and> texel (loadTextureOrCheckerboard (Responded False 404 None)) 17 5 = (230, 230, 230, 255)
   \<and> texel (loadTextureOrCheckerboard (Responded False 404 None)) 16 16 = (35, 35, 35, 255)"
proof -
  have h: "tryLoad (Responded False 404 None) = Inl (HttpError 404)" by simp
  show ?thesis
    using h load_failure_gives_checkerboard [OF h, of 17 5] by auto
qed

subsection \<open>C7: rotation integration\<close>

text \<open>
  C7. A frame advances each of the three angles of the primary object and of every
  spawned object by its rotation speed times the step \<open>dt\<close> of the frame, whatever keys
  are held.
\<close>

theorem frame_integrates_rotation:
  "let dt = frame_dt (lastTime w) now; w' = fst (frame m cam now cw ch w)
   in rx (modelState w') = rx (modelState w) + rotSpeedX (modelState w) * dt
    \<and> ry (modelState w') = ry (modelState w) + rotSpeedY (modelState w) * dt
    \<and> rz (modelState w') = rz (modelState w) + rotSpeedZ (modelState w) * dt
    \<and> length (cubes w') = length (cubes w)
    \<and> (\<forall>i < length (cubes w).
          rx (cubes w' ! i) = rx (cubes w ! i) + rotSpeedX (cubes w ! i) * dt
        \<and> ry (cubes w' ! i) = ry (cubes w ! i) + rotSpeedY (cubes w ! i) * dt
        \<and> rz (cubes w' ! i) = rz (cubes w ! i) + rotSpeedZ (cubes w ! i) * dt)"
  by (simp add: Let_def frame_modelState frame_cubes integrate_fields updateModelState_fields)

text \<open>One spawned cube of speed 2 about Y: a frame of 16 ms, and one clamped to 33 ms.\<close>

theorem frame_integrates_rotation_witness:
  "(0::nat) < length (cubes world1)
   \<and> ry (modelState (fst (frame recorded still 16 800 600 world1))) = 4 / 125
   \<and> ry (cubes (fst (frame recorded still 16 800 600 world1)) ! 0) = 4 / 125
   \<and> ry (cubes (fst (frame recorded still 5000 800 600 world1)) ! 0) = 66 / 1000"
  using frame_integrates_rotation [of world1 16 recorded still 800 600]
        frame_integrates_rotation [of world1 5000 recorded still 800 600]
  by (simp add: Let_def world1_cubes world1_simps frame_dt_def)

subsection \<open>C8: the order toggle over time\<close>

lemma run_keeps_RTS:
  "order (modelState w) = ''RTS'' \<Longrightarrow> noOtherToggle (keys w) evs \<Longrightarrow>
   order (modelState (run m cam w evs)) = ''RTS''"
proof (induction evs arbitrary: w)
  case Nil
  then show ?case by simp
next
  case (Cons ev evs)
  show ?case
  proof (cases ev)
    case (KeyDown key rnd)
    with Cons.prems Cons.IH [of "keydown key rnd w"] show ?thesis
      by (simp add: keydown_other)
  next
    case (KeyUp key)
    with Cons.prems Cons.IH [of "keyup key w"] show ?thesis
      by (simp add: keyup_fields)
  next
    case (AnimationFrame now cw ch)
    with Cons.prems Cons.IH [of "fst (frame m cam now cw ch w)"] show ?thesis
      by (simp add: frame_order frame_keys)
  qed
qed

lemma noOtherToggle_take: "noOtherToggle held evs \<Longrightarrow> noOtherToggle held (take n evs)"
proof (induction held evs arbitrary: n rule: noOtherToggle.induct)
  case (1 held)
  then show ?case by simp
next
  case (2 held key rnd evs)
  then show ?case by (cases n) simp_all
next
  case (3 held key evs)
  then show ?case by (cases n) simp_all
next
  case (4 held now cw ch evs)
  then show ?case by (cases n) simp_all
qed

text \<open>
  C8 as stated fails. The keys "1" and "2" are pressed at start-up, which spawns two
  cubes, and both are held during two frames: the order of the primary object is RTS,
  the order of both spawned cubes is still TRS and the first of them is composed as
  \<open>T \<cdot> (R \<cdot> S)\<close>, so there is no single order that is RTS for the frame.
\<close>

theorem order_toggle_leaves_spawned_counterexample:
  "keys held12 = {''2'', ''1''}
   \<and> order (modelState (fst (frame recorded still 16 800 600 held12))) = ''RTS''
   \<and> map order (cubes (fst (frame recorded still 16 800 600 held12))) = [''TRS'', ''TRS'']
   \<and> buildModelMatrix recorded (hd (cubes (fst (frame recorded still 16 800 600 held12)))) =
       Multiply (Translation (- 25) (- 25) (- 25))
         (Multiply (Multiply (RotationZ 0) (Multiply (RotationY (4 / 125)) (RotationX 0)))
            (Scaling (1 / 2) (1 / 2) (1 / 2)))
   \<and> map order (cubes (run recorded still held12
        [AnimationFrame 16 800 600, AnimationFrame 32 800 600])) = [''TRS'', ''TRS'']
   \<and> order (modelState (run recorded still held12
        [AnimationFrame 16 800 600, AnimationFrame 32 800 600])) = ''RTS''"
  by (simp add: held12_def keydown_other keydown_spawn toggle_keys_not_excluded
        world0_simps world0_state frame_order frame_cubes frame_keys integrate_fields
        buildModelMatrix_def integrate_def frame_dt_def recorded_def Let_def frame_lastTime)

text \<open>
  C8, amended. A frame sets the order of the primary object by the checks "1", "2", "3"
  in this order, the last one that matches winning (so "1" and "2" together give RTS),
  and leaves it as it was when no toggle key is held; the matrix the frame uploads for
  the primary object is built with the order the frame has set. If "2" is held and "3"
  is not, the order of the primary object is RTS after the frame and stays RTS through
  every later event, as long as neither "1" nor "3" is held at a later frame. The toggle
  reaches the primary object only: in a state the program has reached from start-up, a
  held "2" means that at least one cube has been spawned, and every spawned cube has the
  order TRS after the frame and after every later event.
\<close>

theorem order_toggle_last_check_wins:
  "order (modelState (fst (frame m cam now cw ch w))) =
     (if ''3'' \<in> keys w then ''SRT''
      else if ''2'' \<in> keys w then ''RTS''
      else if ''1'' \<in> keys w then ''TRS''
      else order (modelState w))
   \<and> hd (snd (frame m cam now cw ch w)) =
       (let w' = fst (frame m cam now cw ch w);
            vp = multiply m (perspective m ((60 * pi) / 180) (real cw / real ch) 0.1 100)
                   (getViewMatrix cam (camera w'))
        in WriteBuffer (primaryUniformBuffer w) (multiply m vp (buildModelMatrix m (modelState w'))))
   \<and> (''2'' \<in> keys w \<and> ''3'' \<notin> keys w \<and> noOtherToggle (keys w) evs \<longrightarrow>
        (\<forall>n. order (modelState (run m cam (fst (frame m cam now cw ch w)) (take n evs))) = ''RTS''))
   \<and> (w = run m cam (initWorld cam0 t0 rnd0) evs0 \<longrightarrow>
        (''2'' \<in> keys w \<longrightarrow> cubes w \<noteq> [])
      \<and> (\<forall>n. \<forall>c \<in> set (cubes (run m cam (fst (frame m cam now cw ch w)) (take n evs))).
            order c = ''TRS''))"
proof -
  have rts: "order (modelState (run m cam (fst (frame m cam now cw ch w)) (take n evs))) = ''RTS''"
    if "''2'' \<in> keys w" "''3'' \<notin> keys w" "noOtherToggle (keys w) evs" for n
  proof (rule run_keeps_RTS)
    show "order (modelState (fst (frame m cam now cw ch w))) = ''RTS''"
      using that by (simp add: frame_order)
    show "noOtherToggle (keys (fst (frame m cam now cw ch w))) (take n evs)"
      using that by (simp add: frame_keys noOtherToggle_take)
  qed
  have spawned: "cubes w \<noteq> []" if "w = run m cam (initWorld cam0 t0 rnd0) evs0" "''2'' \<in> keys w"
  proof -
    have "keys w \<subseteq> set excludeKeys \<or> cubes w \<noteq> []"
      unfolding that(1) by (intro run_held_key_spawned) (simp add: initWorld_keys)
    then show ?thesis using that(2) toggle_keys_not_excluded(2) by auto
  qed
  have trs: "\<forall>c \<in> set (cubes (run m cam (fst (frame m cam now cw ch w)) (take n evs))).
      order c = ''TRS''" if "w = run m cam (initWorld cam0 t0 rnd0) evs0" for n
  proof (rule run_spawned_TRS)
    have "\<forall>c \<in> set (cubes w). order c = ''TRS''"
      unfolding that by (intro run_spawned_TRS) (simp add: initWorld_cubes)
    then show "\<forall>c \<in> set (cubes (fst (frame m cam now cw ch w))). order c = ''TRS''"
      by (simp add: frame_cubes integrate_fields)
  qed
  show ?thesis
    using rts spawned trs frame_primary_upload [of m cam now cw ch w]
    by (simp add: frame_order)
qed

text \<open>
  After key-downs of "1" and "2" at start-up: both held at the first frame, both released
  before the next two frames; two spawned cubes.
\<close>

theorem order_toggle_last_check_wins_witness:
  "''2'' \<in> keys held12 \<and> ''3'' \<notin> keys held12
   \<and> noOtherToggle (keys held12)
        [KeyUp ''1'', KeyUp ''2'', AnimationFrame 32 800 600, AnimationFrame 48 800 600]
   \<and> held12 = run recorded still (initWorld () 0 (\<lambda>k. 0))
        [KeyDown ''1'' (\<lambda>k. 0), KeyDown ''2'' (\<lambda>k. 0)]
   \<and> cubes held12 \<noteq> []
   \<and> order (modelState (fst (frame recorded still 16 800 600 held12))) = ''RTS''
   \<and> order (modelState (run recorded still (fst (frame recorded still 16 800 600 held12))
        [KeyUp ''1'', KeyUp ''2'', AnimationFrame 32 800 600, AnimationFrame 48 800 600])) = ''RTS''
   \<and> length (cubes (run recorded still (fst (frame recorded still 16 800 600 held12))
        [KeyUp ''1'', KeyUp ''2'', AnimationFrame 32 800 600, AnimationFrame 48 800 600])) = 2
   \<and> order (hd (cubes (run recorded still (fst (frame recorded still 16 800 600 held12))
        [KeyUp ''1'', KeyUp ''2'', AnimationFrame 32 800 600, AnimationFrame 48 800 600]))) = ''TRS''
   \<and> order (last (cubes (run recorded still (fst (frame recorded still 16 800 600 held12))
        [KeyUp ''1'', KeyUp ''2'', AnimationFrame 32 800 600, AnimationFrame 48 800 600]))) = ''TRS''"
proof -
  let ?evs = "[KeyUp ''1'', KeyUp ''2'', AnimationFrame 32 800 600, AnimationFrame 48 800 600]"
  let ?w' = "fst (frame recorded still 16 800 600 held12)"
  have h: "''2'' \<in> keys held12 \<and> ''3'' \<notin> keys held12 \<and> noOtherToggle (keys held12) ?evs"
    by (simp add: held12_simps)
  have r: "held12 = run recorded still (initWorld () 0 (\<lambda>k. 0))
        [KeyDown ''1'' (\<lambda>k. 0), KeyDown ''2'' (\<lambda>k. 0)]"
    by (rule run_held12 [symmetric])
  note t = order_toggle_last_check_wins [of recorded still 16 800 600 held12 ?evs "()" 0 "\<lambda>k. 0"
        "[KeyDown ''1'' (\<lambda>k. 0), KeyDown ''2'' (\<lambda>k. 0)]"]
  from t h have a: "order (modelState ?w') = ''RTS''"
    and b: "\<forall>n. order (modelState (run recorded still ?w' (take n ?evs))) = ''RTS''"
    by simp_all
  from t r h have c: "cubes held12 \<noteq> []"
    and d: "\<forall>n. \<forall>c \<in> set (cubes (run recorded still ?w' (take n ?evs))). order c = ''TRS''"
    by blast+
  from b have b4: "order (modelState (run recorded still ?w' (take 4 ?evs))) = ''RTS''" by blast
  from d have d4: "\<forall>c \<in> set (cubes (run recorded still ?w' (take 4 ?evs))). order c = ''TRS''"
    by blast
  have len: "length (cubes (run recorded still ?w' ?evs)) = 2"
    by (simp add: frame_cubes keyup_fields held12_def keydown_spawn toggle_keys_not_excluded
          world0_simps)
  then have ne: "cubes (run recorded still ?w' ?evs) \<noteq> []" by auto
  from d4 ne have e: "order (hd (cubes (run recorded still ?w' ?evs))) = ''TRS''"
    "order (last (cubes (run recorded still ?w' ?evs))) = ''TRS''"
    by simp_all
  show ?thesis using h r a c b4 len e by simp
qed

subsection \<open>C9: the GPU resources of the objects\<close>

lemma ready_integrate: "ready dev (integrate dt c) = ready dev c"
  by (simp add: ready_def integrate_fields split: option.splits)

lemma ready_bound:
  "ready dev c \<Longrightarrow> \<exists>b g. uniformBuffer c = Some b \<and> bindGroup c = Some g
     \<and> b < buffers dev \<and> g < length (bindGroups dev) \<and> bindGroups dev ! g = (b, textureView c)"
  by (auto simp: ready_def split: option.splits)

lemma resourcesOwned_init: "resourcesOwned (initWorld cam0 t0 rnd)"
  by (simp add: resourcesOwned_def initWorld_def Let_def createBuffer_def createBindGroup_def)

lemma resourcesOwned_frame:
  "resourcesOwned w \<Longrightarrow> resourcesOwned (fst (frame m cam now cw ch w))"
  by (simp add: resourcesOwned_def frame_cubes frame_device frame_primary ready_integrate
        integrate_fields comp_def)

lemma resourcesOwned_keyup: "resourcesOwned w \<Longrightarrow> resourcesOwned (keyup key w)"
  by (simp add: resourcesOwned_def keyup_def)

lemma resourcesOwned_keydown:
  assumes "resourcesOwned w"
  shows "resourcesOwned (keydown key rnd w)"
proof (cases "key \<in> set excludeKeys")
  case True
  then show ?thesis using assms by (simp add: keydown_excluded resourcesOwned_def)
next
  case False
  let ?dev = "device w"
  let ?view = "at_index [0, 1, 2] \<lfloor>rnd 0 * 3\<rfloor> :: nat option"
  let ?dev' = "\<lparr>buffers = buffers ?dev + 1,
                 bindGroups = bindGroups ?dev @ [(buffers ?dev, ?view)]\<rparr>"
  have old: "ready ?dev' c" if "c \<in> set (cubes w)" for c
    using ready_bound [of ?dev c] that assms
    by (auto simp: resourcesOwned_def ready_def nth_append)
  have fresh_b: "Some (buffers ?dev) \<notin> set (map uniformBuffer (cubes w))"
    using assms ready_bound [of ?dev] by (fastforce simp: resourcesOwned_def)
  have fresh_g: "Some (length (bindGroups ?dev)) \<notin> set (map bindGroup (cubes w))"
    using assms ready_bound [of ?dev] by (fastforce simp: resourcesOwned_def)
  show ?thesis
    using assms old fresh_b fresh_g
    by (auto simp: resourcesOwned_def keydown_spawn [OF False] keydown_device [OF False]
          keydown_other ready_def)
qed

lemma resourcesOwned_run:
  "resourcesOwned w \<Longrightarrow> resourcesOwned (run m cam w evs)"
proof (induction evs arbitrary: w)
  case Nil
  then show ?case by simp
next
  case (Cons ev evs)
  have "resourcesOwned (step m cam w ev)"
    using Cons.prems
    by (cases ev) (simp_all add: resourcesOwned_keydown resourcesOwned_keyup resourcesOwned_frame)
  then show ?case using Cons.IH by simp
qed

lemma cubeLoop_draws:
  "\<forall>c \<in> set cs. uniformBuffer c \<noteq> None \<and> bindGroup c \<noteq> None \<Longrightarrow>
   count_list (snd (cubeLoop m vp dt cs)) (Draw vertexCount) = length cs
   \<and> length (snd (cubeLoop m vp dt cs)) = 3 * length cs"
proof (induction cs)
  case Nil
  then show ?case by simp
next
  case (Cons c cs)
  then obtain b g where "uniformBuffer c = Some b" "bindGroup c = Some g" by auto
  with Cons show ?case
    by (simp add: Let_def case_prod_beta integrate_fields)
qed

text \<open>
  C9. In every state the program can reach from start-up, every object of the sequence
  has a uniform buffer and a bind group, no two objects (the primary one included) share
  either, and a frame issues one draw call for the primary object and one for every
  spawned object: the guard in the loop skips none. A spawning key-down appends an
  object that already holds the buffer and the bind group the device has just created
  for it, the bind group being built on that buffer and the object's texture view.
\<close>

theorem spawned_objects_own_resources:
  "let w = run m cam (initWorld cam0 t0 rnd0) evs
   in (\<forall>c \<in> set (cubes w). uniformBuffer c \<noteq> None \<and> bindGroup c \<noteq> None)
    \<and> distinct (Some (primaryUniformBuffer w) # map uniformBuffer (cubes w))
    \<and> distinct (Some (primaryBindGroup w) # map bindGroup (cubes w))
    \<and> count_list (snd (frame m cam now cw ch w)) (Draw vertexCount) = 1 + length (cubes w)
    \<and> length (snd (frame m cam now cw ch w)) = 3 * (1 + length (cubes w))
    \<and> (key \<notin> set excludeKeys \<longrightarrow>
         uniformBuffer (last (cubes (keydown key rnd w))) = Some (buffers (device w))
       \<and> bindGroup (last (cubes (keydown key rnd w))) = Some (length (bindGroups (device w)))
       \<and> last (bindGroups (device (keydown key rnd w))) =
            (buffers (device w), textureView (last (cubes (keydown key rnd w)))))"
proof -
  define w where "w = run m cam (initWorld cam0 t0 rnd0) evs"
  have inv: "resourcesOwned w"
    unfolding w_def by (intro resourcesOwned_run resourcesOwned_init)
  have set: "\<forall>c \<in> set (cubes w). uniformBuffer c \<noteq> None \<and> bindGroup c \<noteq> None"
    using inv ready_bound [of "device w"] by (fastforce simp: resourcesOwned_def)
  have own: "distinct (Some (primaryUniformBuffer w) # map uniformBuffer (cubes w))"
    "distinct (Some (primaryBindGroup w) # map bindGroup (cubes w))"
    using inv by (simp_all add: resourcesOwned_def)
  have draws: "count_list (snd (frame m cam now cw ch w)) (Draw vertexCount) = 1 + length (cubes w)"
    "length (snd (frame m cam now cw ch w)) = 3 * (1 + length (cubes w))"
    using cubeLoop_draws [OF set, of m] by (simp_all add: frame_cmds Let_def)
  have spawn: "uniformBuffer (last (cubes (keydown key rnd w))) = Some (buffers (device w))
       \<and> bindGroup (last (cubes (keydown key rnd w))) = Some (length (bindGroups (device w)))
       \<and> last (bindGroups (device (keydown key rnd w))) =
            (buffers (device w), textureView (last (cubes (keydown key rnd w))))"
    if "key \<notin> set excludeKeys"
    by (simp add: keydown_spawn [OF that] keydown_device [OF that])
  show ?thesis
    using set own draws spawn unfolding w_def [symmetric] Let_def by blast
qed

text \<open>
  One spawned cube; a frame draws twice; a second cube gets the next buffer and bind group.
\<close>

theorem spawned_objects_own_resources_witness:
  "cubes world1 \<noteq> [] \<and> ''y'' \<notin> set excludeKeys
   \<and> map uniformBuffer (cubes world1) = [Some 2] \<and> map bindGroup (cubes world1) = [Some 1]
   \<and> primaryUniformBuffer world1 = 1 \<and> primaryBindGroup world1 = 0
   \<and> count_list (snd (frame recorded still 16 800 600 world1)) (Draw vertexCount) = 2
   \<and> uniformBuffer (last (cubes (keydown ''y'' (\<lambda>k. 0) world1))) = Some 3
   \<and> bindGroup (last (cubes (keydown ''y'' (\<lambda>k. 0) world1))) = Some 2"
proof -
  have k: "''y'' \<notin> set excludeKeys" by (simp add: excludeKeys_def)
  have d: "buffers (device world1) = 3" "length (bindGroups (device world1)) = 2"
    "primaryUniformBuffer world1 = 1" "primaryBindGroup world1 = 0"
    by (simp_all add: world1_def keydown_device toggle_keys_not_excluded keydown_other
          world0_def initWorld_def createBuffer_def createBindGroup_def)
  show ?thesis
    using k d spawned_objects_own_resources [of recorded still "()" 0 "\<lambda>k. 0"
        "[KeyDown ''x'' (\<lambda>k. 0)]" 16 800 600 "''y''" "\<lambda>k. 0", unfolded run_world0]
    by (simp add: Let_def world1_cubes)
qed

subsection \<open>C10: what a frame changes in a spawned object\<close>

text \<open>
  C10. A frame keeps the length of the object sequence, and every spawned object after
  the frame is the object before it with only \<open>rx\<close>, \<open>ry\<close> and \<open>rz\<close> replaced: the
  translation, the scale, the order, the rotation speeds, the uniform buffer, the bind
  group and the texture view are unchanged.
\<close>

theorem frame_changes_only_rotation:
  "let w' = fst (frame m cam now cw ch w)
   in length (cubes w') = length (cubes w)
    \<and> (\<forall>i < length (cubes w).
          tx (cubes w' ! i) = tx (cubes w ! i)
        \<and> ty (cubes w' ! i) = ty (cubes w ! i)
        \<and> tz (cubes w' ! i) = tz (cubes w ! i)
        \<and> s (cubes w' ! i) = s (cubes w ! i)
        \<and> order (cubes w' ! i) = order (cubes w ! i)
        \<and> rotSpeedX (cubes w' ! i) = rotSpeedX (cubes w ! i)
        \<and> rotSpeedY (cubes w' ! i) = rotSpeedY (cubes w ! i)
        \<and> rotSpeedZ (cubes w' ! i) = rotSpeedZ (cubes w ! i)
        \<and> uniformBuffer (cubes w' ! i) = uniformBuffer (cubes w ! i)
        \<and> bindGroup (cubes w' ! i) = bindGroup (cubes w ! i)
        \<and> textureView (cubes w' ! i) = textureView (cubes w ! i)
        \<and> cubes w' ! i = (cubes w ! i)\<lparr>rx := rx (cubes w' ! i), ry := ry (cubes w' ! i),
                                       rz := rz (cubes w' ! i)\<rparr>)"
  by (simp add: Let_def frame_cubes integrate_fields)

text \<open>One spawned cube, one frame.\<close>

theorem frame_changes_only_rotation_witness:
  "(0::nat) < length (cubes world1)
   \<and> length (cubes (fst (frame recorded still 16 800 600 world1))) = 1
   \<and> tx (cubes (fst (frame recorded still 16 800 600 world1)) ! 0) = - 25
   \<and> s (cubes (fst (frame recorded still 16 800 600 world1)) ! 0) = 1 / 2
   \<and> order (cubes (fst (frame recorded still 16 800 600 world1)) ! 0) = ''TRS''
   \<and> uniformBuffer (cubes (fst (frame recorded still 16 800 600 world1)) ! 0) = Some 2
   \<and> bindGroup (cubes (fst (frame recorded still 16 800 600 world1)) ! 0) = Some 1"
  using frame_changes_only_rotation [of recorded still 16 800 600 world1]
  by (simp add: Let_def world1_cubes)

subsection \<open>C1: the order is a field of each object\<close>

text \<open>
  C1 as stated fails. At start-up the key "2" is pressed (which also spawns a cube) and
  held during a frame of 16 ms: the primary object is uploaded as \<open>R \<cdot> (T \<cdot> S)\<close>, the
  spawned one as \<open>T \<cdot> (R \<cdot> S)\<close>; after the frame the primary order is RTS and the
  order of the spawned object is TRS.
\<close>

theorem order_toggle_not_uniform_counterexample:
  "snd (frame recorded still 16 800 600 (keydown ''2'' (\<lambda>k. 0) world0)) =
     [WriteBuffer 1
        (Multiply (Multiply (Perspective (pi / 3) (4 / 3) (1 / 10) 100) ViewMatrix)
           (Multiply (Multiply (RotationZ 0) (Multiply (RotationY (4 / 125)) (RotationX 0)))
              (Multiply (Translation 0 0 0) (Scaling 1 1 1)))),
      SetBindGroup 0, Draw 36,
      WriteBuffer 2
        (Multiply (Multiply (Perspective (pi / 3) (4 / 3) (1 / 10) 100) ViewMatrix)
           (Multiply (Translation (- 25) (- 25) (- 25))
              (Multiply (Multiply (RotationZ 0) (Multiply (RotationY (4 / 125)) (RotationX 0)))
                 (Scaling (1 / 2) (1 / 2) (1 / 2))))),
      SetBindGroup 1, Draw 36]
   \<and> order (modelState (fst (frame recorded still 16 800 600 (keydown ''2'' (\<lambda>k. 0) world0)))) = ''RTS''
   \<and> map order (cubes (fst (frame recorded still 16 800 600 (keydown ''2'' (\<lambda>k. 0) world0)))) = [''TRS'']"
  by (simp add: frame_cmds Let_def keydown_other keydown_spawn toggle_keys_not_excluded
      frame_order frame_cubes integrate_fields world0_simps world0_state updateModelState_def
      buildModelMatrix_def integrate_def frame_dt_def recorded_def still_def vertexCount_def
      at_index_def)

text \<open>
  C1, amended. The composition order is a field of each object. In every state the
  program can reach from start-up, every spawned object has the order TRS and
  \<^verbatim>\<open>buildModelMatrix\<close> composes it as \<open>T \<cdot> (R \<cdot> S)\<close>, whatever keys are or were held;
  the toggle keys set the order of the primary object only (checks "1", "2", "3", the
  last match winning) and leave the spawned objects as they are, and so does a frame.
\<close>

theorem order_is_per_object:
  "let w = run m cam (initWorld cam0 t0 rnd0) evs
   in (\<forall>c \<in> set (cubes w).
         order c = ''TRS''
       \<and> buildModelMatrix m c =
           multiply m (translation m (tx c) (ty c) (tz c))
             (multiply m
                (multiply m (rotationZ m (rz c))
                   (multiply m (rotationY m (ry c)) (rotationX m (rx c))))
                (scaling m (s c) (s c) (s c))))
    \<and> cubes (updateModelState w) = cubes w
    \<and> order (modelState (updateModelState w)) =
        (if ''3'' \<in> keys w then ''SRT''
         else if ''2'' \<in> keys w then ''RTS''
         else if ''1'' \<in> keys w then ''TRS''
         else order (modelState w))
    \<and> map order (cubes (fst (frame m cam now cw ch w))) = map order (cubes w)"
proof -
  define w where "w = run m cam (initWorld cam0 t0 rnd0) evs"
  have trs: "\<forall>c \<in> set (cubes w). order c = ''TRS''"
    unfolding w_def by (intro run_spawned_TRS) (simp add: initWorld_cubes)
  have built: "buildModelMatrix m c =
           multiply m (translation m (tx c) (ty c) (tz c))
             (multiply m
                (multiply m (rotationZ m (rz c))
                   (multiply m (rotationY m (ry c)) (rotationX m (rx c))))
                (scaling m (s c) (s c) (s c)))" if "c \<in> set (cubes w)" for c
    using trs that by (simp add: buildModelMatrix_def Let_def)
  have kept: "map order (cubes (fst (frame m cam now cw ch w))) = map order (cubes w)"
    by (simp add: frame_cubes integrate_fields comp_def)
  show ?thesis
    using trs built kept unfolding w_def [symmetric] Let_def
    by (simp add: updateModelState_fields updateModelState_order)
qed

text \<open>
  The run of the counterexample: one spawned cube with order TRS, the primary order RTS.
\<close>

theorem order_is_per_object_witness:
  "cubes (fst (frame recorded still 16 800 600 (keydown ''2'' (\<lambda>k. 0) world0))) \<noteq> []
   \<and> order (hd (cubes (fst (frame recorded still 16 800 600 (keydown ''2'' (\<lambda>k. 0) world0))))) = ''TRS''
   \<and> order (modelState (fst (frame recorded still 16 800 600 (keydown ''2'' (\<lambda>k. 0) world0)))) = ''RTS''"
proof -
  let ?w = "fst (frame recorded still 16 800 600 (keydown ''2'' (\<lambda>k. 0) world0))"
  have ne: "cubes ?w \<noteq> []"
    by (simp add: frame_cubes keydown_spawn toggle_keys_not_excluded)
  have "\<forall>c \<in> set (cubes ?w). order c = ''TRS''"
    using order_is_per_object [of recorded still "()" 0 "\<lambda>k. 0"
        "[KeyDown ''2'' (\<lambda>k. 0), AnimationFrame 16 800 600]" 32 800 600, unfolded run_toggle]
    by (simp add: Let_def)
  then have "order (hd (cubes ?w)) = ''TRS''" using ne by simp
  moreover have "order (modelState ?w) = ''RTS''"
    by (simp add: frame_order keydown_other world0_simps)
  ultimately show ?thesis using ne by simp
qed

end
